theory Spec2Isabelle
  imports Main "HOL-Library.Word"
begin

section \<open>Data model\<close>

text \<open>
  The service keeps tasks in an in-memory map, counts requests and errors with two
  atomic 64-bit counters and reads the wall clock for identifiers and timestamps.
  The model is sequential: the reader-writer lock of the storage and the atomicity of
  the counters are not represented, and log output is dropped.

  A \<open>time.Time\<close> is modelled by its number of nanoseconds since the Unix epoch, an
  unbounded integer; \<open>UnixNano\<close> turns it into an \<open>int64\<close>.
\<close>

type_synonym time = int

record Task =
  ID :: string
  Title :: string
  Description :: string
  Status :: string
  CreatedAt :: time
  UpdatedAt :: time

text \<open>
  A \<open>*Task\<close> is the nil pointer or points to a task; a pointer that is not nil is
  modelled by the task it points to (no operation of the task manager makes two keys
  share one pointer).
\<close>

datatype task_ptr = NilPtr | Ptr Task

text \<open>
  The storage holds \<open>interface{}\<close> values. \<open>AnyNil\<close> is the nil interface value,
  \<open>AnyTask p\<close> a value of dynamic type \<open>*Task\<close> holding the pointer \<open>p\<close> (a nil
  pointer of this type included), and \<open>AnyOther\<close> stands for a value of any other
  dynamic type.
\<close>

datatype any = AnyNil | AnyTask task_ptr | AnyOther nat

text \<open>
  A call returns, or it panics: dereferencing a nil \<open>*Task\<close> is a run-time panic.
  The state a panicking call leaves behind is not modelled.
\<close>

datatype 'a outcome = Returns 'a | Panics

text \<open>
  Errors: \<open>errors.New(msg)\<close> is \<open>ErrorString msg\<close>; \<open>DeadlineExceeded\<close> is the sentinel
  \<open>context.DeadlineExceeded\<close>.
\<close>

datatype error = ErrorString string | DeadlineExceeded

fun Error :: "error \<Rightarrow> string" where
  "Error (ErrorString s) = s"
| "Error DeadlineExceeded = ''context deadline exceeded''"

section \<open>Database (simulated)\<close>

record db =
  connected :: bool

definition db_Ping :: "'ctx \<Rightarrow> db \<Rightarrow> error option" where
  "db_Ping ctx d = (if \<not> connected d then Some DeadlineExceeded else None)"

definition db_IsConnected :: "db \<Rightarrow> bool" where
  "db_IsConnected d = connected d"

section \<open>Storage\<close>

record memoryStorage =
  data :: "string \<rightharpoonup> any"

definition memoryStorage_Set :: "string \<Rightarrow> any \<Rightarrow> memoryStorage \<Rightarrow> memoryStorage" where
  "memoryStorage_Set key v s = s\<lparr>data := (data s)(key \<mapsto> v)\<rparr>"

text \<open>\<open>val, ok := s.data[key]\<close>: the zero value \<open>nil\<close> and \<open>false\<close> when the key is absent.\<close>

definition memoryStorage_Get :: "string \<Rightarrow> memoryStorage \<Rightarrow> any \<times> bool" where
  "memoryStorage_Get key s =
     (case data s key of None \<Rightarrow> (AnyNil, False) | Some v \<Rightarrow> (v, True))"

definition memoryStorage_Delete :: "string \<Rightarrow> memoryStorage \<Rightarrow> memoryStorage" where
  "memoryStorage_Delete key s = s\<lparr>data := (data s)(key := None)\<rparr>"

text \<open>\<open>List\<close> copies every binding into a new map.\<close>

definition memoryStorage_List :: "memoryStorage \<Rightarrow> (string \<rightharpoonup> any)" where
  "memoryStorage_List s = data s"

section \<open>Metrics\<close>

record metrics =
  requests :: "64 word"
  errors :: "64 word"

definition metrics_IncrementRequests :: "metrics \<Rightarrow> metrics" where
  "metrics_IncrementRequests m = m\<lparr>requests := requests m + 1\<rparr>"

definition metrics_IncrementErrors :: "metrics \<Rightarrow> metrics" where
  "metrics_IncrementErrors m = m\<lparr>errors := errors m + 1\<rparr>"

definition metrics_GetRequests :: "metrics \<Rightarrow> 64 word" where
  "metrics_GetRequests m = requests m"

definition metrics_GetErrors :: "metrics \<Rightarrow> 64 word" where
  "metrics_GetErrors m = errors m"

section \<open>Clock and identifiers\<close>

text \<open>
  The process state the task manager and the HTTP server work on: the storage and the
  metrics they share, and the clock. \<open>clock w n\<close> is what the \<open>n\<close>-th call of
  \<open>time.Now()\<close> returns and \<open>reads w\<close> counts the calls made so far, so every call
  of \<open>time.Now()\<close> takes a reading of its own.
\<close>

record world =
  storage :: memoryStorage
  metrics :: metrics
  clock :: "nat \<Rightarrow> time"
  reads :: nat

definition time_Now :: "world \<Rightarrow> time \<times> world" where
  "time_Now w = (clock w (reads w), w\<lparr>reads := Suc (reads w)\<rparr>)"

text \<open>
  \<open>UnixNano\<close> computes in \<open>int64\<close>: the number of nanoseconds, wrapped around
  into the range from \<open>- 2 ^ 63\<close> up to \<open>2 ^ 63 - 1\<close>.
\<close>

definition UnixNano :: "time \<Rightarrow> int" where
  "UnixNano t = (t + 2 ^ 63) mod 2 ^ 64 - 2 ^ 63"

text \<open>The verb \<open>%d\<close> of \<open>fmt.Sprintf\<close>: decimal digits, with a minus sign when negative.\<close>

definition digit_char :: "nat \<Rightarrow> char" where
  "digit_char d = ''0123456789'' ! d"

fun show_nat :: "nat \<Rightarrow> string" where
  "show_nat n = (if n < 10 then [digit_char n] else show_nat (n div 10) @ [digit_char (n mod 10)])"

declare show_nat.simps [simp del]

definition show_int :: "int \<Rightarrow> string" where
  "show_int i = (if i < 0 then CHR ''-'' # show_nat (nat (- i)) else show_nat (nat i))"

definition task_id :: "int \<Rightarrow> string" where
  "task_id n = ''task-'' @ show_int n"

section \<open>Task manager\<close>

definition IncrementErrors :: "world \<Rightarrow> world" where
  "IncrementErrors w = w\<lparr>metrics := metrics_IncrementErrors (metrics w)\<rparr>"

definition IncrementRequests :: "world \<Rightarrow> world" where
  "IncrementRequests w = w\<lparr>metrics := metrics_IncrementRequests (metrics w)\<rparr>"

definition storage_Set :: "string \<Rightarrow> any \<Rightarrow> world \<Rightarrow> world" where
  "storage_Set key v w = w\<lparr>storage := memoryStorage_Set key v (storage w)\<rparr>"

definition storage_Delete :: "string \<Rightarrow> world \<Rightarrow> world" where
  "storage_Delete key w = w\<lparr>storage := memoryStorage_Delete key (storage w)\<rparr>"

text \<open>
  \<open>Create\<close>: the three fields \<open>ID\<close>, \<open>CreatedAt\<close> and \<open>UpdatedAt\<close> of the struct literal
  each call \<open>time.Now()\<close>, in this order. The pointer to the new task is stored and
  returned.
\<close>

definition taskManager_Create :: "string \<Rightarrow> string \<Rightarrow> world \<Rightarrow> (error + task_ptr) \<times> world" where
  "taskManager_Create title description w =
     (if title = [] then (Inl (ErrorString ''title is required''), IncrementErrors w)
      else
        let (t0, w0) = time_Now w;
            (t1, w1) = time_Now w0;
            (t2, w2) = time_Now w1;
            task = \<lparr>ID = task_id (UnixNano t0), Title = title, Description = description,
                    Status = ''pending'', CreatedAt = t1, UpdatedAt = t2\<rparr>
        in (Inr (Ptr task), storage_Set (ID task) (AnyTask (Ptr task)) w2))"

text \<open>
  \<open>Get\<close>: the type assertion \<open>val.(*Task)\<close> holds for every value of dynamic type
  \<open>*Task\<close>, the nil pointer of this type too, and \<open>Get\<close> returns the pointer as it is.
\<close>

definition taskManager_Get :: "string \<Rightarrow> world \<Rightarrow> (error + task_ptr) \<times> world" where
  "taskManager_Get tid w =
     (case memoryStorage_Get tid (storage w) of
        (val, ok) \<Rightarrow>
          if \<not> ok then (Inl (ErrorString ''task not found''), IncrementErrors w)
          else (case val of
                  AnyTask task \<Rightarrow> (Inr task, w)
                | _ \<Rightarrow> (Inl (ErrorString ''invalid task data''), IncrementErrors w)))"

text \<open>
  \<open>List\<close> ranges over the copy of the map and appends every value of dynamic type
  \<open>*Task\<close>. Go leaves the order of a \<open>range\<close> over a map unspecified: \<open>ks\<close> is the order
  in which the loop visits the keys.
\<close>

fun collect_tasks :: "(string \<rightharpoonup> any) \<Rightarrow> string list \<Rightarrow> task_ptr list \<Rightarrow> task_ptr list" where
  "collect_tasks all [] tasks = tasks"
| "collect_tasks all (k # ks) tasks =
     (case all k of
        Some (AnyTask task) \<Rightarrow> collect_tasks all ks (tasks @ [task])
      | _ \<Rightarrow> collect_tasks all ks tasks)"

definition taskManager_List :: "string list \<Rightarrow> world \<Rightarrow> task_ptr list" where
  "taskManager_List ks w = collect_tasks (memoryStorage_List (storage w)) ks []"

text \<open>
  \<open>Update\<close> writes through the pointer \<open>Get\<close> returned. When that pointer is nil the
  call panics, at the first field it assigns and at \<open>task.UpdatedAt\<close> at the latest.
\<close>

definition taskManager_Update ::
  "string \<Rightarrow> string \<Rightarrow> string \<Rightarrow> string \<Rightarrow> world \<Rightarrow> ((error + task_ptr) \<times> world) outcome" where
  "taskManager_Update tid title description status w =
     (case taskManager_Get tid w of
        (Inl err, w') \<Rightarrow> Returns (Inl err, w')
      | (Inr NilPtr, w') \<Rightarrow> Panics
      | (Inr (Ptr task), w') \<Rightarrow>
          let task1 = (if title \<noteq> [] then task\<lparr>Title := title\<rparr> else task);
              task2 = (if description \<noteq> [] then task1\<lparr>Description := description\<rparr> else task1);
              task3 = (if status \<noteq> [] then task2\<lparr>Status := status\<rparr> else task2);
              (now, w'') = time_Now w';
              task4 = task3\<lparr>UpdatedAt := now\<rparr>
          in Returns (Inr (Ptr task4), storage_Set tid (AnyTask (Ptr task4)) w''))"

definition taskManager_Delete :: "string \<Rightarrow> world \<Rightarrow> error option \<times> world" where
  "taskManager_Delete tid w =
     (case taskManager_Get tid w of
        (Inl err, w') \<Rightarrow> (Some err, w')
      | (Inr task, w') \<Rightarrow> (None, storage_Delete tid w'))"

text \<open>
  \<open>GetStats\<close>: the result map has the four keys \<open>total_tasks\<close>, \<open>total_requests\<close>,
  \<open>total_errors\<close> and \<open>by_status\<close>. The loop \<open>statusCount[task.Status]++\<close> reads the zero
  value for a status it has not seen, and it panics at a nil pointer in the list; no
  result is returned then.
\<close>

record stats =
  total_tasks :: int
  total_requests :: "64 word"
  total_errors :: "64 word"
  by_status :: "string \<rightharpoonup> int"

fun count_status :: "task_ptr list \<Rightarrow> (string \<rightharpoonup> int) \<Rightarrow> (string \<rightharpoonup> int) outcome" where
  "count_status [] statusCount = Returns statusCount"
| "count_status (NilPtr # tasks) statusCount = Panics"
| "count_status (Ptr task # tasks) statusCount =
     count_status tasks
       (statusCount(Status task \<mapsto>
          (case statusCount (Status task) of None \<Rightarrow> 0 | Some c \<Rightarrow> c) + 1))"

definition taskManager_GetStats :: "string list \<Rightarrow> world \<Rightarrow> stats outcome" where
  "taskManager_GetStats ks w =
     (let tasks = taskManager_List ks w;
          total = int (length tasks);
          reqs = metrics_GetRequests (metrics w);
          errs = metrics_GetErrors (metrics w)
      in case count_status tasks Map.empty of
           Panics \<Rightarrow> Panics
         | Returns statusCount \<Rightarrow>
             Returns \<lparr>total_tasks = total, total_requests = reqs, total_errors = errs,
                      by_status = statusCount\<rparr>)"

section \<open>HTTP API\<close>

text \<open>
  A request carries its method, its path and its body. The JSON decoder belongs to the
  standard library: \<open>decode\<close> is what \<open>json.NewDecoder(r.Body).Decode(&req)\<close> leaves in
  the handler's struct, \<open>None\<close> when it returns an error. The response is the status and
  the value handed to the JSON encoder.
\<close>

record request =
  Method :: string
  URLPath :: string
  Body :: string

record createReq =
  req_Title :: string
  req_Description :: string

datatype json_data =
    JStrMap "(string \<times> string) list"
  | JTask task_ptr
  | JTasks "task_ptr list"

record response =
  resp_header :: "(string \<times> string) list"
  resp_status :: int
  resp_body :: json_data

definition StatusOK :: int where "StatusOK = 200"
definition StatusCreated :: int where "StatusCreated = 201"
definition StatusBadRequest :: int where "StatusBadRequest = 400"
definition StatusMethodNotAllowed :: int where "StatusMethodNotAllowed = 405"

definition jsonResponse :: "int \<Rightarrow> json_data \<Rightarrow> response" where
  "jsonResponse st d = \<lparr>resp_header = [(''Content-Type'', ''application/json'')], resp_status = st, resp_body = d\<rparr>"

definition jsonError :: "int \<Rightarrow> string \<Rightarrow> response" where
  "jsonError st message = jsonResponse st (JStrMap [(''error'', message)])"

definition server_handleTasks ::
  "(string \<Rightarrow> createReq option) \<Rightarrow> string list \<Rightarrow> request \<Rightarrow> world \<Rightarrow> response \<times> world" where
  "server_handleTasks decode ks r w =
     (if Method r = ''GET'' then (jsonResponse StatusOK (JTasks (taskManager_List ks w)), w)
      else if Method r = ''POST'' then
        (case decode (Body r) of
           None \<Rightarrow> (jsonError StatusBadRequest ''Invalid request body'', IncrementErrors w)
         | Some req \<Rightarrow>
             (case taskManager_Create (req_Title req) (req_Description req) w of
                (Inl err, w') \<Rightarrow> (jsonError StatusBadRequest (Error err), IncrementErrors w')
              | (Inr task, w') \<Rightarrow> (jsonResponse StatusCreated (JTask task), w')))
      else (jsonError StatusMethodNotAllowed ''Method not allowed'', w))"

text \<open>The logging middleware counts the request, then runs the handler.\<close>

definition server_loggingMiddleware ::
  "(request \<Rightarrow> world \<Rightarrow> response \<times> world) \<Rightarrow> request \<Rightarrow> world \<Rightarrow> response \<times> world" where
  "server_loggingMiddleware next_handler r w = next_handler r (IncrementRequests w)"

section \<open>Reading decimal numerals back\<close>

text \<open>
  These two functions are not part of the service. They invert \<open>show_nat\<close> and serve
  only to prove that different numbers are printed differently.
\<close>

definition digit_val :: "char \<Rightarrow> nat" where
  "digit_val c = of_char c - 48"

definition read_nat :: "string \<Rightarrow> nat" where
  "read_nat s = foldl (\<lambda>n c. 10 * n + digit_val c) 0 s"

section \<open>Example states\<close>

text \<open>
  Two clocks. \<open>clock_ticking\<close> advances by one nanosecond with every reading.
  \<open>clock_coarse\<close> is a clock of coarse resolution: its first four readings fall into
  one tick and return the same instant, after which it advances.
\<close>

definition clock_ticking :: "nat \<Rightarrow> time" where
  "clock_ticking n = 5 + int n"

definition clock_coarse :: "nat \<Rightarrow> time" where
  "clock_coarse n = 5 + int (n - 3)"

text \<open>The state of a freshly started process: empty storage, counters at zero.\<close>

definition world_init :: "(nat \<Rightarrow> time) \<Rightarrow> world" where
  "world_init c = \<lparr>storage = \<lparr>data = Map.empty\<rparr>, metrics = \<lparr>requests = 0, errors = 0\<rparr>,
                   clock = c, reads = 0\<rparr>"

text \<open>The state after one successful \<open>Create\<close>, under either clock.\<close>

definition world_ticking :: world where
  "world_ticking = snd (taskManager_Create ''a'' ''b'' (world_init clock_ticking))"

definition world_coarse :: world where
  "world_coarse = snd (taskManager_Create ''a'' ''b'' (world_init clock_coarse))"

text \<open>
  The same state with, in addition, a nil \<open>*Task\<close> and a value of another type stored
  through the storage interface.
\<close>

definition world_nil :: world where
  "world_nil = storage_Set ''n'' (AnyTask NilPtr) (storage_Set ''k'' (AnyOther 0) world_ticking)"

text \<open>A decoder that yields a fixed result, and a \<open>POST /tasks\<close> request.\<close>

definition decode_as :: "createReq option \<Rightarrow> string \<Rightarrow> createReq option" where
  "decode_as res b = res"

definition post_request :: request where
  "post_request = \<lparr>Method = ''POST'', URLPath = ''/tasks'', Body = ''body''\<rparr>"

section \<open>Auxiliary facts\<close>

lemmas tm_defs = taskManager_Create_def taskManager_Get_def taskManager_Update_def
  taskManager_Delete_def IncrementErrors_def metrics_IncrementErrors_def storage_Set_def
  storage_Delete_def memoryStorage_Set_def memoryStorage_Get_def memoryStorage_Delete_def
  time_Now_def UnixNano_def Let_def

lemmas eval_defs = tm_defs task_id_def show_int_def show_nat.simps digit_char_def
  world_init_def clock_ticking_def clock_coarse_def world_ticking_def world_coarse_def
  world_nil_def

lemmas handler_defs = server_handleTasks_def taskManager_Create_def IncrementErrors_def
  metrics_IncrementErrors_def jsonError_def jsonResponse_def StatusBadRequest_def

subsection \<open>Identifiers of different clock readings differ\<close>

lemma digit_cases: "d < 10 \<Longrightarrow> d \<in> {0, 1, 2, 3, 4, 5, 6, 7, 8, 9::nat}"
  by auto

lemma digit_val_digit_char: "d < 10 \<Longrightarrow> digit_val (digit_char d) = d"
  using digit_cases [of d] by (auto simp: digit_val_def digit_char_def)

lemma digit_char_not_minus: "d < 10 \<Longrightarrow> digit_char d \<noteq> CHR ''-''"
  using digit_cases [of d] by (auto simp: digit_char_def)

lemma read_nat_snoc: "read_nat (s @ [c]) = 10 * read_nat s + digit_val c"
  by (simp add: read_nat_def)

lemma read_show_nat: "read_nat (show_nat n) = n"
proof (induction n rule: show_nat.induct)
  case (1 n)
  show ?case
  proof (cases "n < 10")
    case True
    then show ?thesis
      by (simp add: show_nat.simps [of n] read_nat_def digit_val_digit_char)
  next
    case False
    with 1 have "read_nat (show_nat (n div 10)) = n div 10" by simp
    with False show ?thesis
      by (simp add: show_nat.simps [of n] read_nat_snoc digit_val_digit_char)
  qed
qed

lemma show_nat_inj: "show_nat a = show_nat b \<Longrightarrow> a = b"
  by (metis read_show_nat)

lemma show_nat_no_minus: "CHR ''-'' \<notin> set (show_nat n)"
proof (induction n rule: show_nat.induct)
  case (1 n)
  show ?case
  proof (cases "n < 10")
    case True
    then show ?thesis
      using digit_char_not_minus [of n] by (simp add: show_nat.simps [of n])
  next
    case False
    with 1 have "CHR ''-'' \<notin> set (show_nat (n div 10))" by simp
    moreover have "digit_char (n mod 10) \<noteq> CHR ''-''"
      by (rule digit_char_not_minus) simp
    ultimately show ?thesis using False
      by (simp add: show_nat.simps [of n])
  qed
qed

lemma show_int_inj: "show_int i = show_int j \<Longrightarrow> i = j"
proof -
  assume eq: "show_int i = show_int j"
  have nm: "\<And>n xs. show_nat n \<noteq> CHR ''-'' # xs"
    using show_nat_no_minus by (metis list.set_intros(1))
  show "i = j"
  proof (cases "i < 0")
    case True
    show ?thesis
    proof (cases "j < 0")
      case True
      with \<open>i < 0\<close> eq have "nat (- i) = nat (- j)"
        by (simp add: show_int_def show_nat_inj)
      with True \<open>i < 0\<close> show ?thesis by simp
    next
      case False
      with True eq have "show_nat (nat j) = CHR ''-'' # show_nat (nat (- i))"
        by (simp add: show_int_def)
      with nm show ?thesis by blast
    qed
  next
    case False
    show ?thesis
    proof (cases "j < 0")
      case True
      with False eq have "show_nat (nat i) = CHR ''-'' # show_nat (nat (- j))"
        by (simp add: show_int_def)
      with nm show ?thesis by blast
    next
      case False
      with \<open>\<not> i < 0\<close> eq have "nat i = nat j"
        by (simp add: show_int_def show_nat_inj)
      with False \<open>\<not> i < 0\<close> show ?thesis by simp
    qed
  qed
qed

lemma task_id_inj: "task_id a = task_id b \<Longrightarrow> a = b"
  by (simp add: task_id_def show_int_inj)

text \<open>Within the \<open>int64\<close> range \<open>UnixNano\<close> returns the number of nanoseconds itself.\<close>

lemma UnixNano_in_range: "- (2 ^ 63) \<le> t \<Longrightarrow> t < 2 ^ 63 \<Longrightarrow> UnixNano t = t"
  by (simp add: UnixNano_def)

lemma UnixNano_wraps: "UnixNano (2 ^ 63) = - (2 ^ 63)"
  by (simp add: UnixNano_def)

subsection \<open>Counting by status\<close>

text \<open>One pass of the loop body \<open>statusCount[task.Status]++\<close> adds one to the total.\<close>

lemma bump_sum:
  assumes "finite (dom m)"
  shows "(\<Sum>s\<in>dom (m(k \<mapsto> (case m k of None \<Rightarrow> 0 | Some c \<Rightarrow> c) + 1)).
            the ((m(k \<mapsto> (case m k of None \<Rightarrow> 0 | Some c \<Rightarrow> c) + 1)) s))
         = (\<Sum>s\<in>dom m. the (m s)) + (1::int)"
proof (cases "m k")
  case None
  then have "k \<notin> dom m" by auto
  with assms None show ?thesis
    by (simp add: sum.insert_if) (rule sum.cong, auto)
next
  case (Some c)
  then have k: "k \<in> dom m" by auto
  then have d: "dom (m(k \<mapsto> c + 1)) = dom m" by auto
  have 1: "(\<Sum>s\<in>dom m. the ((m(k \<mapsto> c + 1)) s))
        = the ((m(k \<mapsto> c + 1)) k) + (\<Sum>s\<in>dom m - {k}. the ((m(k \<mapsto> c + 1)) s))"
    using assms k by (rule sum.remove)
  have 2: "(\<Sum>s\<in>dom m - {k}. the ((m(k \<mapsto> c + 1)) s)) = (\<Sum>s\<in>dom m - {k}. the (m s))"
    by (rule sum.cong) auto
  have 3: "(\<Sum>s\<in>dom m. the (m s)) = the (m k) + (\<Sum>s\<in>dom m - {k}. the (m s))"
    using assms k by (rule sum.remove)
  from 1 2 3 Some d show ?thesis by simp
qed

text \<open>When the loop runs to its end, the counts have grown by the length of the list.\<close>

lemma count_status_sum:
  "finite (dom m) \<Longrightarrow> count_status ts m = Returns m' \<Longrightarrow>
     finite (dom m') \<and> (\<Sum>s\<in>dom m'. the (m' s)) = (\<Sum>s\<in>dom m. the (m s)) + int (length ts)"
proof (induction ts arbitrary: m)
  case Nil
  then show ?case by simp
next
  case (Cons p ts)
  show ?case
  proof (cases p)
    case NilPtr
    with Cons.prems show ?thesis by simp
  next
    case (Ptr t)
    let ?m = "m(Status t \<mapsto> (case m (Status t) of None \<Rightarrow> 0 | Some c \<Rightarrow> c) + 1)"
    from Cons.prems have fin: "finite (dom ?m)" by simp
    from Cons.prems Ptr have run: "count_status ts ?m = Returns m'" by simp
    from Cons.IH [OF fin run] have f: "finite (dom m')"
      and e: "(\<Sum>s\<in>dom m'. the (m' s)) = (\<Sum>s\<in>dom ?m. the (?m s)) + int (length ts)"
      by blast+
    have l: "int (length (p # ts)) = 1 + int (length ts)" by simp
    from f e bump_sum [OF Cons.prems(1), of "Status t"] show ?thesis
      unfolding l by linarith
  qed
qed

text \<open>The loop runs to its end on a list without a nil pointer.\<close>

lemma count_status_returns: "NilPtr \<notin> set ts \<Longrightarrow> \<exists>m'. count_status ts m = Returns m'"
proof (induction ts arbitrary: m)
  case Nil
  then show ?case by simp
next
  case (Cons p ts)
  then show ?case by (cases p) simp_all
qed

lemma collect_tasks_no_nil:
  "\<forall>k\<in>set ks. all k \<noteq> Some (AnyTask NilPtr) \<Longrightarrow> NilPtr \<notin> set acc \<Longrightarrow>
     NilPtr \<notin> set (collect_tasks all ks acc)"
proof (induction ks arbitrary: acc)
  case Nil
  then show ?case by simp
next
  case (Cons k ks)
  then show ?case
    by (auto split: option.splits any.splits)
qed

section \<open>The HTTP handler for an empty title\<close>

text \<open>
  Claim C1, as the code has it. For a \<open>POST /tasks\<close> request whose body decodes
  successfully but has an empty title, the handler answers with status 400 and the body
  \<open>{"error": "title is required"}\<close>. The error counter goes up by two, not by one:
  \<open>Create\<close> counts the error and the handler counts it again. The storage is untouched.
  The count is the same when the request comes through the logging middleware, which
  only counts the request.
\<close>

theorem handleTasks_empty_title:
  assumes "Method r = ''POST''" and "decode (Body r) = Some req" and "req_Title req = []"
  shows "resp_status (fst (server_handleTasks decode ks r w)) = 400
     \<and> resp_body (fst (server_handleTasks decode ks r w)) = JStrMap [(''error'', ''title is required'')]
     \<and> errors (metrics (snd (server_handleTasks decode ks r w))) = errors (metrics w) + 2
     \<and> storage (snd (server_handleTasks decode ks r w)) = storage w
     \<and> errors (metrics (snd (server_loggingMiddleware (server_handleTasks decode ks) r w)))
         = errors (metrics w) + 2"
  using assms
  by (simp add: handler_defs server_loggingMiddleware_def IncrementRequests_def
      metrics_IncrementRequests_def)

text \<open>The theorem at a request that decodes to an empty title, on a fresh process.\<close>

theorem handleTasks_empty_title_witness:
  "Method post_request = ''POST''
   \<and> decode_as (Some \<lparr>req_Title = [], req_Description = ''d''\<rparr>) (Body post_request) = Some \<lparr>req_Title = [], req_Description = ''d''\<rparr>
   \<and> req_Title \<lparr>req_Title = [], req_Description = ''d''\<rparr> = []
   \<and> resp_status (fst (server_handleTasks (decode_as (Some \<lparr>req_Title = [], req_Description = ''d''\<rparr>))
         [] post_request (world_init clock_ticking))) = 400
   \<and> resp_body (fst (server_handleTasks (decode_as (Some \<lparr>req_Title = [], req_Description = ''d''\<rparr>))
         [] post_request (world_init clock_ticking))) = JStrMap [(''error'', ''title is required'')]
   \<and> errors (metrics (snd (server_handleTasks (decode_as (Some \<lparr>req_Title = [], req_Description = ''d''\<rparr>))
         [] post_request (world_init clock_ticking)))) = 2"
  using handleTasks_empty_title [of post_request "decode_as (Some \<lparr>req_Title = [], req_Description = ''d''\<rparr>)" "\<lparr>req_Title = [], req_Description = ''d''\<rparr>" "[]"
      "world_init clock_ticking"]
  by (simp add: post_request_def decode_as_def world_init_def)

text \<open>
  The counter does not go up by exactly one: it stands at 0 before the request and at 2,
  not at 1, after it.
\<close>

theorem handleTasks_empty_title_counterexample:
  "errors (metrics (world_init clock_ticking)) = 0
   \<and> resp_status (fst (server_handleTasks (decode_as (Some \<lparr>req_Title = [], req_Description = ''d''\<rparr>))
         [] post_request (world_init clock_ticking))) = 400
   \<and> errors (metrics (snd (server_handleTasks (decode_as (Some \<lparr>req_Title = [], req_Description = ''d''\<rparr>))
         [] post_request (world_init clock_ticking)))) = 2
   \<and> errors (metrics (snd (server_handleTasks (decode_as (Some \<lparr>req_Title = [], req_Description = ''d''\<rparr>))
         [] post_request (world_init clock_ticking)))) \<noteq> 0 + 1"
  by (simp add: handler_defs post_request_def decode_as_def world_init_def)

section \<open>Task manager: Get\<close>

text \<open>
  Claim C2, as the code has it. \<open>Get\<close> fails with "task not found" when the id is absent
  from the storage, and it counts an error in this case too. It fails with "invalid task
  data", again counting one error, when the stored value is not of type \<open>*Task\<close>: the
  nil interface value or a value of another type. When the stored value is of type
  \<open>*Task\<close> it returns that pointer as it is and counts nothing; this includes a nil
  pointer of type \<open>*Task\<close>, which is returned with no error. Counting an error adds one
  to the error counter and leaves the storage as it is.
\<close>

theorem get_outcomes:
  "(data (storage w) tid = None \<longrightarrow>
      taskManager_Get tid w = (Inl (ErrorString ''task not found''), IncrementErrors w))
   \<and> (data (storage w) tid = Some (AnyTask p) \<longrightarrow> taskManager_Get tid w = (Inr p, w))
   \<and> (data (storage w) tid = Some v \<and> (\<forall>p'. v \<noteq> AnyTask p') \<longrightarrow>
      taskManager_Get tid w = (Inl (ErrorString ''invalid task data''), IncrementErrors w))
   \<and> errors (metrics (IncrementErrors w)) = errors (metrics w) + 1
   \<and> storage (IncrementErrors w) = storage w"
  by (auto simp: taskManager_Get_def memoryStorage_Get_def IncrementErrors_def
      metrics_IncrementErrors_def split: any.splits)

text \<open>
  The cases: an absent id, a stored task, a stored nil pointer, a stored value of
  another type.
\<close>

theorem get_outcomes_witness:
  "data (storage (world_init clock_ticking)) ''task-5'' = None
   \<and> taskManager_Get ''task-5'' (world_init clock_ticking)
       = (Inl (ErrorString ''task not found''), IncrementErrors (world_init clock_ticking))
   \<and> data (storage world_nil) ''task-5'' = Some (AnyTask (Ptr \<lparr>ID = ''task-5'', Title = ''a'', Description = ''b'', Status = ''pending'', CreatedAt = 6, UpdatedAt = 7\<rparr>))
   \<and> taskManager_Get ''task-5'' world_nil = (Inr (Ptr \<lparr>ID = ''task-5'', Title = ''a'', Description = ''b'', Status = ''pending'', CreatedAt = 6, UpdatedAt = 7\<rparr>), world_nil)
   \<and> data (storage world_nil) ''n'' = Some (AnyTask NilPtr)
   \<and> taskManager_Get ''n'' world_nil = (Inr NilPtr, world_nil)
   \<and> data (storage world_nil) ''k'' = Some (AnyOther 0)
   \<and> fst (taskManager_Get ''k'' world_nil) = Inl (ErrorString ''invalid task data'')
   \<and> errors (metrics world_nil) = 0
   \<and> errors (metrics (snd (taskManager_Get ''k'' world_nil))) = 1"
  using get_outcomes [of "world_init clock_ticking" "''task-5''"]
    get_outcomes [of world_nil "''task-5''" "Ptr \<lparr>ID = ''task-5'', Title = ''a'', Description = ''b'', Status = ''pending'', CreatedAt = 6, UpdatedAt = 7\<rparr>"]
    get_outcomes [of world_nil "''n''" NilPtr]
    get_outcomes [of world_nil "''k''" _ "AnyOther 0"]
  by (simp add: eval_defs)

text \<open>
  An absent id is not looked up for free: on a fresh process the error counter stands
  at 0 before \<open>Get\<close> and at 1 after it.
\<close>

theorem get_absent_counterexample:
  "data (storage (world_init clock_ticking)) ''task-1'' = None
   \<and> fst (taskManager_Get ''task-1'' (world_init clock_ticking)) = Inl (ErrorString ''task not found'')
   \<and> errors (metrics (world_init clock_ticking)) = 0
   \<and> errors (metrics (snd (taskManager_Get ''task-1'' (world_init clock_ticking)))) = 1"
  by (simp add: eval_defs)

section \<open>Task manager: Create\<close>

text \<open>
  Claim C3, as the code has it. \<open>Create\<close> with an empty title fails with "title is
  required" and adds one to the error counter. With a non-empty title it succeeds and
  takes three clock readings, one after the other. It returns a task whose id is
  \<open>task-\<close> followed by \<open>UnixNano\<close> of the first reading in decimal (the reading itself
  when it lies in the \<open>int64\<close> range); this id differs from the id made from any other
  number. The task has the given title and description and the status "pending"; its
  \<open>created_at\<close> is set to now, the second reading, and its \<open>updated_at\<close> is set to now,
  the third reading, so the two are equal exactly when the clock does not move between
  these two readings. The task is written to the storage under its id, every other
  binding and the counters staying as they were.
\<close>

theorem create_result:
  "taskManager_Create [] description w = (Inl (ErrorString ''title is required''), IncrementErrors w)
   \<and> errors (metrics (IncrementErrors w)) = errors (metrics w) + 1
   \<and> (title \<noteq> [] \<longrightarrow>
        (\<exists>T w'. taskManager_Create title description w = (Inr (Ptr T), w')
          \<and> ID T = task_id (UnixNano (clock w (reads w)))
          \<and> (- (2 ^ 63) \<le> clock w (reads w) \<and> clock w (reads w) < 2 ^ 63 \<longrightarrow>
               ID T = task_id (clock w (reads w)))
          \<and> (\<forall>n. n \<noteq> UnixNano (clock w (reads w)) \<longrightarrow> ID T \<noteq> task_id n)
          \<and> Title T = title \<and> Description T = description \<and> Status T = ''pending''
          \<and> CreatedAt T = clock w (Suc (reads w))
          \<and> UpdatedAt T = clock w (Suc (Suc (reads w)))
          \<and> (CreatedAt T = UpdatedAt T \<longleftrightarrow> clock w (Suc (reads w)) = clock w (Suc (Suc (reads w))))
          \<and> data (storage w') = (data (storage w))(ID T \<mapsto> AnyTask (Ptr T))
          \<and> metrics w' = metrics w \<and> clock w' = clock w \<and> reads w' = reads w + 3))"
proof -
  have inj: "\<forall>n. n \<noteq> UnixNano (clock w (reads w)) \<longrightarrow>
      task_id (UnixNano (clock w (reads w))) \<noteq> task_id n"
    using task_id_inj by blast
  have rng: "- (2 ^ 63) \<le> clock w (reads w) \<and> clock w (reads w) < 2 ^ 63 \<longrightarrow>
      task_id (UnixNano (clock w (reads w))) = task_id (clock w (reads w))"
    using UnixNano_in_range by simp
  show ?thesis
    using inj rng
    by (simp add: taskManager_Create_def IncrementErrors_def metrics_IncrementErrors_def
        storage_Set_def memoryStorage_Set_def time_Now_def Let_def)
qed

text \<open>Both branches on a fresh process with the ticking clock.\<close>

theorem create_result_witness:
  "''a'' \<noteq> []
   \<and> - (2 ^ 63) \<le> clock (world_init clock_ticking) (reads (world_init clock_ticking))
   \<and> clock (world_init clock_ticking) (reads (world_init clock_ticking)) < 2 ^ 63
   \<and> fst (taskManager_Create ''a'' ''b'' (world_init clock_ticking)) = Inr (Ptr \<lparr>ID = ''task-5'', Title = ''a'', Description = ''b'', Status = ''pending'', CreatedAt = 6, UpdatedAt = 7\<rparr>)
   \<and> data (storage (snd (taskManager_Create ''a'' ''b'' (world_init clock_ticking)))) ''task-5''
        = Some (AnyTask (Ptr \<lparr>ID = ''task-5'', Title = ''a'', Description = ''b'', Status = ''pending'', CreatedAt = 6, UpdatedAt = 7\<rparr>))
   \<and> reads (snd (taskManager_Create ''a'' ''b'' (world_init clock_ticking))) = 3
   \<and> fst (taskManager_Create [] ''b'' (world_init clock_ticking)) = Inl (ErrorString ''title is required'')
   \<and> errors (metrics (snd (taskManager_Create [] ''b'' (world_init clock_ticking)))) = 1"
  using create_result [of "''b''" "world_init clock_ticking" "''a''"]
  by (simp add: eval_defs)

text \<open>
  Under the coarse clock a second \<open>Create\<close> returns an id that is not fresh, the first
  task being stored under it already (and replaced by the call), and a task whose two
  timestamps differ.
\<close>

theorem create_result_counterexample:
  "data (storage world_coarse) ''task-5'' = Some (AnyTask (Ptr \<lparr>ID = ''task-5'', Title = ''a'', Description = ''b'', Status = ''pending'', CreatedAt = 5, UpdatedAt = 5\<rparr>))
   \<and> fst (taskManager_Create ''c'' ''d'' world_coarse)
     = Inr (Ptr \<lparr>ID = ''task-5'', Title = ''c'', Description = ''d'', Status = ''pending'',
            CreatedAt = 6, UpdatedAt = 7\<rparr>)"
  by (simp add: eval_defs)

text \<open>
  Claim C4. For every non-empty title and every description, \<open>Create\<close> returns a task
  \<open>T\<close>, and \<open>Get\<close> of its id in the state \<open>Create\<close> leaves returns \<open>T\<close> itself, equal in
  every field, without changing the state.
\<close>

theorem create_then_get:
  assumes "title \<noteq> []"
  shows "\<exists>T w'. taskManager_Create title description w = (Inr (Ptr T), w')
            \<and> taskManager_Get (ID T) w' = (Inr (Ptr T), w')"
  using assms by (simp add: tm_defs)

theorem create_then_get_witness:
  "''a'' \<noteq> []
   \<and> fst (taskManager_Create ''a'' ''b'' (world_init clock_ticking)) = Inr (Ptr \<lparr>ID = ''task-5'', Title = ''a'', Description = ''b'', Status = ''pending'', CreatedAt = 6, UpdatedAt = 7\<rparr>)
   \<and> fst (taskManager_Get ''task-5'' (snd (taskManager_Create ''a'' ''b'' (world_init clock_ticking))))
        = Inr (Ptr \<lparr>ID = ''task-5'', Title = ''a'', Description = ''b'', Status = ''pending'', CreatedAt = 6, UpdatedAt = 7\<rparr>)"
  using create_then_get [of "''a''" "''b''" "world_init clock_ticking"]
  by (simp add: eval_defs)

section \<open>Task manager: Update\<close>

text \<open>
  Claim C5, as the code has it. For every stored task, \<open>Update\<close> returns without an
  error, keeps every field whose argument is the empty string, sets every field whose
  argument is not empty to that argument, keeps the id and \<open>created_at\<close>, and sets
  \<open>updated_at\<close> to the clock reading it takes. The new \<open>updated_at\<close> is strictly greater
  than the previous one exactly when the clock has moved past the previous one. The
  updated task is written back under the id.
\<close>

theorem update_fields:
  assumes "data (storage w) tid = Some (AnyTask (Ptr old))"
  shows "\<exists>new w'. taskManager_Update tid title description status w = Returns (Inr (Ptr new), w')
     \<and> ID new = ID old
     \<and> Title new = (if title = [] then Title old else title)
     \<and> Description new = (if description = [] then Description old else description)
     \<and> Status new = (if status = [] then Status old else status)
     \<and> CreatedAt new = CreatedAt old
     \<and> UpdatedAt new = clock w (reads w)
     \<and> (UpdatedAt old < UpdatedAt new \<longleftrightarrow> UpdatedAt old < clock w (reads w))
     \<and> data (storage w') = (data (storage w))(tid \<mapsto> AnyTask (Ptr new))
     \<and> metrics w' = metrics w"
  using assms by (simp add: tm_defs)

text \<open>Setting the status of the stored task to "completed" under the ticking clock.\<close>

theorem update_fields_witness:
  "data (storage world_ticking) ''task-5'' = Some (AnyTask (Ptr \<lparr>ID = ''task-5'', Title = ''a'', Description = ''b'', Status = ''pending'', CreatedAt = 6, UpdatedAt = 7\<rparr>))
   \<and> map_outcome fst (taskManager_Update ''task-5'' [] [] ''completed'' world_ticking)
     = Returns (Inr (Ptr \<lparr>ID = ''task-5'', Title = ''a'', Description = ''b'', Status = ''completed'',
            CreatedAt = 6, UpdatedAt = 8\<rparr>))"
  using update_fields [of world_ticking "''task-5''" "\<lparr>ID = ''task-5'', Title = ''a'', Description = ''b'', Status = ''pending'', CreatedAt = 6, UpdatedAt = 7\<rparr>" "[]" "[]" "''completed''"]
  by (simp add: eval_defs)

text \<open>
  Under the coarse clock the update falls into the tick of the creation: \<open>updated_at\<close>
  is 5 before the update and 5 after it, not strictly greater.
\<close>

theorem update_fields_counterexample:
  "data (storage world_coarse) ''task-5'' = Some (AnyTask (Ptr \<lparr>ID = ''task-5'', Title = ''a'', Description = ''b'', Status = ''pending'', CreatedAt = 5, UpdatedAt = 5\<rparr>))
   \<and> map_outcome fst (taskManager_Update ''task-5'' [] [] ''completed'' world_coarse)
     = Returns (Inr (Ptr \<lparr>ID = ''task-5'', Title = ''a'', Description = ''b'', Status = ''completed'',
            CreatedAt = 5, UpdatedAt = 5\<rparr>))"
  by (simp add: eval_defs)

section \<open>Task manager: Delete\<close>

text \<open>
  Claim C6. For every id, once \<open>Delete\<close> has returned without an error, \<open>Get\<close> of the id
  fails with "task not found" and so does a second \<open>Delete\<close>; and \<open>Delete\<close> fails with
  "task not found" whenever the id is absent from the storage.
\<close>

theorem delete_then_not_found:
  "(taskManager_Delete tid w = (None, w') \<longrightarrow>
       fst (taskManager_Get tid w') = Inl (ErrorString ''task not found'')
     \<and> fst (taskManager_Delete tid w') = Some (ErrorString ''task not found''))
   \<and> (data (storage w) tid = None \<longrightarrow>
       fst (taskManager_Delete tid w) = Some (ErrorString ''task not found''))"
  by (auto simp: tm_defs split: option.splits any.splits if_splits)

theorem delete_then_not_found_witness:
  "taskManager_Delete ''task-5'' world_ticking = (None, storage_Delete ''task-5'' world_ticking)
   \<and> fst (taskManager_Get ''task-5'' (storage_Delete ''task-5'' world_ticking))
        = Inl (ErrorString ''task not found'')
   \<and> fst (taskManager_Delete ''task-5'' (storage_Delete ''task-5'' world_ticking))
        = Some (ErrorString ''task not found'')
   \<and> data (storage (world_init clock_ticking)) ''task-5'' = None
   \<and> fst (taskManager_Delete ''task-5'' (world_init clock_ticking))
        = Some (ErrorString ''task not found'')"
  using delete_then_not_found [of "''task-5''" world_ticking "storage_Delete ''task-5'' world_ticking"]
    delete_then_not_found [of "''task-5''" "world_init clock_ticking"]
  by (simp add: eval_defs)

section \<open>Database\<close>

text \<open>
  Claim C7. \<open>Ping\<close> fails exactly when \<open>IsConnected\<close> is false, and the error it then
  returns is \<open>context.DeadlineExceeded\<close>, the only error of a ping (the kind the
  specification calls Unavailable); it returns no error exactly when \<open>IsConnected\<close> is
  true.
\<close>

theorem ping_iff_connected:
  "(db_Ping ctx d = Some DeadlineExceeded \<longleftrightarrow> \<not> db_IsConnected d)
   \<and> (db_Ping ctx d = None \<longleftrightarrow> db_IsConnected d)"
  by (simp add: db_Ping_def db_IsConnected_def)

theorem ping_iff_connected_witness:
  "db_IsConnected \<lparr>connected = True\<rparr> \<and> db_Ping () \<lparr>connected = True\<rparr> = None
   \<and> \<not> db_IsConnected \<lparr>connected = False\<rparr>
   \<and> db_Ping () \<lparr>connected = False\<rparr> = Some DeadlineExceeded"
  using ping_iff_connected [of "()" "\<lparr>connected = True\<rparr>"]
    ping_iff_connected [of "()" "\<lparr>connected = False\<rparr>"]
  by (simp add: db_IsConnected_def)

section \<open>Storage\<close>

text \<open>
  Claim C8. For every key \<open>k\<close> and value \<open>v\<close>: after \<open>Set k v\<close>, \<open>Get k\<close> returns \<open>v\<close>
  and \<open>true\<close>; \<open>Get k\<close> returns \<open>false\<close> exactly when \<open>k\<close> is absent; \<open>Delete k\<close> removes
  \<open>k\<close>, changes nothing when \<open>k\<close> is absent, and leaves the binding of every other key
  as it was.
\<close>

theorem storage_set_get_delete:
  "memoryStorage_Get k (memoryStorage_Set k v s) = (v, True)
   \<and> (snd (memoryStorage_Get k s) = False \<longleftrightarrow> k \<notin> dom (data s))
   \<and> k \<notin> dom (data (memoryStorage_Delete k s))
   \<and> (k \<notin> dom (data s) \<longrightarrow> memoryStorage_Delete k s = s)
   \<and> (k' \<noteq> k \<longrightarrow> data (memoryStorage_Delete k s) k' = data s k')"
  by (auto simp: memoryStorage_Get_def memoryStorage_Set_def memoryStorage_Delete_def
      split: option.splits)

theorem storage_set_get_delete_witness:
  "memoryStorage_Get ''a'' (memoryStorage_Set ''a'' (AnyOther 1) \<lparr>data = [''b'' \<mapsto> AnyOther 2]\<rparr>)
      = (AnyOther 1, True)
   \<and> ''a'' \<notin> dom (data \<lparr>data = [''b'' \<mapsto> AnyOther 2]\<rparr>)
   \<and> snd (memoryStorage_Get ''a'' \<lparr>data = [''b'' \<mapsto> AnyOther 2]\<rparr>) = False
   \<and> memoryStorage_Delete ''a'' \<lparr>data = [''b'' \<mapsto> AnyOther 2]\<rparr> = \<lparr>data = [''b'' \<mapsto> AnyOther 2]\<rparr>
   \<and> ''b'' \<noteq> ''a''
   \<and> data (memoryStorage_Delete ''a'' \<lparr>data = [''b'' \<mapsto> AnyOther 2]\<rparr>) ''b'' = Some (AnyOther 2)"
  using storage_set_get_delete [of "''a''" "AnyOther 1" "\<lparr>data = [''b'' \<mapsto> AnyOther 2]\<rparr>" "''b''"]
  by simp

section \<open>Statistics\<close>

text \<open>
  Claim C9. In every result of \<open>GetStats\<close>, whatever the order in which the map of the
  storage is visited, \<open>by_status\<close> has finitely many statuses and the sum of its counts
  over all of them equals \<open>total_tasks\<close>. \<open>GetStats\<close> returns a result whenever no
  visited key holds a nil \<open>*Task\<close>.
\<close>

theorem stats_by_status_sum:
  "(taskManager_GetStats ks w = Returns r \<longrightarrow>
       finite (dom (by_status r))
     \<and> (\<Sum>s\<in>dom (by_status r). the (by_status r s)) = total_tasks r)
   \<and> ((\<forall>k\<in>set ks. data (storage w) k \<noteq> Some (AnyTask NilPtr)) \<longrightarrow>
       (\<exists>r'. taskManager_GetStats ks w = Returns r'))"
proof (intro conjI impI)
  assume ret: "taskManager_GetStats ks w = Returns r"
  then obtain m' where run: "count_status (taskManager_List ks w) Map.empty = Returns m'"
    and r: "r = \<lparr>total_tasks = int (length (taskManager_List ks w)),
                 total_requests = metrics_GetRequests (metrics w),
                 total_errors = metrics_GetErrors (metrics w), by_status = m'\<rparr>"
    by (auto simp: taskManager_GetStats_def Let_def split: outcome.splits)
  from count_status_sum [OF _ run] r
  show "finite (dom (by_status r))"
    and "(\<Sum>s\<in>dom (by_status r). the (by_status r s)) = total_tasks r"
    by simp_all
next
  assume "\<forall>k\<in>set ks. data (storage w) k \<noteq> Some (AnyTask NilPtr)"
  then have "NilPtr \<notin> set (taskManager_List ks w)"
    using collect_tasks_no_nil [of ks "data (storage w)" "[]"]
    by (simp add: taskManager_List_def memoryStorage_List_def)
  from count_status_returns [OF this, of Map.empty]
  show "\<exists>r'. taskManager_GetStats ks w = Returns r'"
    by (auto simp: taskManager_GetStats_def Let_def)
qed

text \<open>
  The statistics of the state with one pending task, and of the state where a nil
  pointer is stored as well: visiting the nil pointer, \<open>GetStats\<close> panics.
\<close>

theorem stats_by_status_sum_witness:
  "taskManager_GetStats [''task-5''] world_ticking
     = Returns \<lparr>total_tasks = 1, total_requests = 0, total_errors = 0,
                by_status = [''pending'' \<mapsto> 1]\<rparr>
   \<and> finite (dom [''pending'' \<mapsto> 1::int])
   \<and> (\<Sum>s\<in>dom [''pending'' \<mapsto> 1::int]. the ([''pending'' \<mapsto> 1::int] s)) = 1
   \<and> taskManager_GetStats [''n'', ''task-5''] world_nil = Panics"
  using stats_by_status_sum [of "[''task-5'']" world_ticking
      "\<lparr>total_tasks = 1, total_requests = 0, total_errors = 0, by_status = [''pending'' \<mapsto> 1]\<rparr>"]
  by (simp add: eval_defs taskManager_GetStats_def taskManager_List_def memoryStorage_List_def
      metrics_GetRequests_def metrics_GetErrors_def)

section \<open>A failed Create leaves the storage alone\<close>

text \<open>
  Claim C10. When \<open>Create\<close> fails because the title is empty, the storage after the call
  is the storage before it: no key is added, removed or rebound.
\<close>

theorem create_empty_title_keeps_storage:
  "storage (snd (taskManager_Create [] description w)) = storage w"
  by (simp add: taskManager_Create_def IncrementErrors_def)

end
